theory Spec2Isabelle
  imports Main
begin

section \<open>Python exceptions raised by the modelled code\<close>

text \<open>
  Every exception that the modelled parts of \<^verbatim>\<open>als/io/input.py\<close> and
  \<^verbatim>\<open>als/logic.py\<close> can raise is a value. \<open>SessionError\<close> and its subclass
  \<open>CriticalFolderMissing\<close> carry a message (the title) and details, as
  \<^verbatim>\<open>AlsException\<close> does. \<open>AttributeError\<close> is what Python raises when a method
  is called on \<^verbatim>\<open>None\<close>.
\<close>

datatype py_exception =
    AssertionError
  | IndexError
  | AttributeError
  | ValueError string
  | ScannerStartError string
  | SessionError string string
  | CriticalFolderMissing string string

fun exception_class :: "py_exception \<Rightarrow> string" where
  "exception_class AssertionError = ''AssertionError''"
| "exception_class IndexError = ''IndexError''"
| "exception_class AttributeError = ''AttributeError''"
| "exception_class (ValueError _) = ''ValueError''"
| "exception_class (ScannerStartError _) = ''ScannerStartError''"
| "exception_class (SessionError _ _) = ''SessionError''"
| "exception_class (CriticalFolderMissing _ _) = ''CriticalFolderMissing''"

text \<open>\<^verbatim>\<open>except SessionError\<close> also catches the subclass.\<close>

fun is_SessionError :: "py_exception \<Rightarrow> bool" where
  "is_SessionError (SessionError _ _) = True"
| "is_SessionError (CriticalFolderMissing _ _) = True"
| "is_SessionError _ = False"

text \<open>
  A call that mutates an object and may raise: the object as it is when the call
  returns, or the exception together with the object as the raise left it.
\<close>

datatype 's outcome =
    Returns (final: 's)
  | Raises py_exception (final: 's)

section \<open>Images\<close>

text \<open>
  Modelled from the spec: the class \<^verbatim>\<open>Image\<close> of \<^verbatim>\<open>als.model.base\<close> is not
  among the sources. An image holds its samples, an optional bayer pattern, a free-text
  origin and an optional destination. The samples are kept abstract (type \<open>'px\<close>).
  \<^verbatim>\<open>clone()\<close> gives an independent copy with the same content.
\<close>

record 'px image =
  data :: 'px
  bayer_pattern :: "string option"
  origin :: "string option"
  destination :: "string option"

definition Image :: "'px \<Rightarrow> 'px image" where
  "Image d = \<lparr>data = d, bayer_pattern = None, origin = None, destination = None\<rparr>"

definition clone :: "'px image \<Rightarrow> 'px image" where
  "clone img = img"

section \<open>Reading a RAW image: the bayer pattern (\<^verbatim>\<open>als/io/input.py\<close>)\<close>

text \<open>
  The bayer pattern is computed inside \<^verbatim>\<open>_read_raw_image\<close>: an assertion on
  the two lengths, then the loop
  \<^verbatim>\<open>
    for i, index in enumerate(bayer_pattern_indices):
        assert bayer_pattern_indices[i] < len(bayer_pattern_indices)
        bayer_pattern += bayer_pattern_desc[index]
  \<close>
  The indices are the entries of rawpy's \<^verbatim>\<open>raw_pattern\<close>, an array of unsigned
  bytes, hence naturals. \<open>n\<close> is \<^verbatim>\<open>len(bayer_pattern_indices)\<close>. Reading the
  description out of range raises \<open>IndexError\<close>.
\<close>

fun bayer_pattern_loop :: "nat \<Rightarrow> string \<Rightarrow> nat list \<Rightarrow> string \<Rightarrow> py_exception + string" where
  "bayer_pattern_loop n desc [] acc = Inr acc"
| "bayer_pattern_loop n desc (index # rest) acc =
     (if \<not> index < n then Inl AssertionError
      else if \<not> index < length desc then Inl IndexError
      else bayer_pattern_loop n desc rest (acc @ [desc ! index]))"

definition compute_bayer_pattern :: "nat list \<Rightarrow> string \<Rightarrow> py_exception + string" where
  "compute_bayer_pattern bayer_pattern_indices bayer_pattern_desc =
     (if length bayer_pattern_indices \<noteq> length bayer_pattern_desc then Inl AssertionError
      else bayer_pattern_loop (length bayer_pattern_indices) bayer_pattern_desc
             bayer_pattern_indices [])"

text \<open>
  What \<^verbatim>\<open>imread\<close> gives for a file: one of the two LibRaw errors that
  \<^verbatim>\<open>_read_raw_image\<close> catches, or a raw image with its flattened
  \<^verbatim>\<open>raw_pattern\<close>, its decoded \<^verbatim>\<open>color_desc\<close> and its visible samples.
\<close>

datatype 'px imread_outcome =
    LibRawNonFatalError string
  | LibRawFatalError string
  | RawImage "nat list" string 'px

text \<open>
  \<^verbatim>\<open>_read_raw_image\<close>: the LibRaw errors are reported and \<^verbatim>\<open>None\<close> is
  returned; any other exception is not caught and leaves the function. \<open>path\<close> is the
  resolved path of the file.
\<close>

definition read_raw_image :: "string \<Rightarrow> 'px imread_outcome \<Rightarrow> py_exception + 'px image option" where
  "read_raw_image path raw =
     (case raw of
        LibRawNonFatalError _ \<Rightarrow> Inr None
      | LibRawFatalError _ \<Rightarrow> Inr None
      | RawImage bayer_pattern_indices bayer_pattern_desc visible \<Rightarrow>
          (case compute_bayer_pattern bayer_pattern_indices bayer_pattern_desc of
             Inl e \<Rightarrow> Inl e
           | Inr pattern \<Rightarrow>
               Inr (Some ((Image visible)
                      \<lparr>bayer_pattern := Some pattern, origin := Some (''FILE : '' @ path)\<rparr>))))"

section \<open>Input scanners (\<^verbatim>\<open>als/io/input.py\<close>)\<close>

text \<open>
  A \<open>FolderScanner\<close> holds its \<^verbatim>\<open>_observer\<close>: \<open>None\<close>, or an observer object
  together with whether its thread runs. An \<open>IndiScanner\<close> holds whether its server
  connection is up (its device handle and server address play no part in what follows).
\<close>

datatype scanner =
    FolderScanner "bool option"
  | IndiScanner bool

definition SCANNER_TYPE_FILESYSTEM :: string where
  "SCANNER_TYPE_FILESYSTEM = ''FS''"

definition SCANNER_TYPE_INDI :: string where
  "SCANNER_TYPE_INDI = ''INDI''"

text \<open>
  \<^verbatim>\<open>create_scanner(scanner_type: str = SCANNER_TYPE_INDI)\<close>: the argument is
  \<open>None\<close> when the caller omits it.
\<close>

definition create_scanner :: "string option \<Rightarrow> py_exception + scanner" where
  "create_scanner arg =
     (let scanner_type = (case arg of None \<Rightarrow> SCANNER_TYPE_INDI | Some t \<Rightarrow> t)
      in if scanner_type = SCANNER_TYPE_FILESYSTEM then Inr (FolderScanner None)
         else if scanner_type = SCANNER_TYPE_INDI then Inr (IndiScanner False)
         else Inl (ValueError (''Unsupported scanner type : '' @ scanner_type)))"

text \<open>
  What the program meets outside itself when a session starts: the configuration
  values, the paths that are directories, whether \<^verbatim>\<open>_setup_web_content\<close> raises an
  \<^verbatim>\<open>OSError\<close> (with its text), whether scheduling or starting the folder observer
  raises an \<^verbatim>\<open>OSError\<close>, and whether \<^verbatim>\<open>connectServer()\<close> brings the INDI
  connection up.
\<close>

record environment =
  input_system :: string
  scan_folder_path :: string
  work_folder_path :: string
  web_folder_path :: string
  directories :: "string set"
  web_content_error :: "string option"
  observer_error :: "string option"
  indi_connects :: bool

text \<open>\<^verbatim>\<open>Path(path).is_dir()\<close>.\<close>

definition is_dir :: "environment \<Rightarrow> string \<Rightarrow> bool" where
  "is_dir env path = (path \<in> directories env)"

text \<open>
  \<^verbatim>\<open>FolderScanner.start\<close> assigns a fresh observer, then schedules and starts it; an
  \<^verbatim>\<open>OSError\<close> becomes \<open>ScannerStartError\<close> and leaves the assigned observer
  not running. \<^verbatim>\<open>IndiScanner.start\<close> connects when not connected and raises
  nothing.
\<close>

fun scanner_start :: "environment \<Rightarrow> scanner \<Rightarrow> scanner outcome" where
  "scanner_start env (FolderScanner ob) =
     (case observer_error env of
        None \<Rightarrow> Returns (FolderScanner (Some True))
      | Some os_error \<Rightarrow> Raises (ScannerStartError os_error) (FolderScanner (Some False)))"
| "scanner_start env (IndiScanner connected) =
     Returns (IndiScanner (if \<not> connected then indi_connects env else connected))"

fun scanner_stop :: "scanner \<Rightarrow> scanner" where
  "scanner_stop (FolderScanner ob) =
     (if ob \<noteq> None then FolderScanner None else FolderScanner ob)"
| "scanner_stop (IndiScanner connected) =
     (if connected then IndiScanner False else IndiScanner connected)"

text \<open>A scanner ingests frames while its observer thread runs or its connection is up.\<close>

fun scanning :: "scanner \<Rightarrow> bool" where
  "scanning (FolderScanner ob) = (ob = Some True)"
| "scanning (IndiScanner connected) = connected"

section \<open>The stacker, as far as the controller uses it\<close>

text \<open>
  Modelled from the spec: the class \<^verbatim>\<open>Stacker\<close> of \<^verbatim>\<open>als.stack\<close> is not among
  the sources. Its state is the combined frame (absent while nothing is stacked), the
  frame count, the combination mode and the alignment flag; \<^verbatim>\<open>reset()\<close> clears the
  accumulator to empty with count zero.
\<close>

record 'px stacker_state =
  accumulator :: "'px image option"
  stack_size :: nat
  stacking_mode :: string
  align_before_stack :: bool

definition Stacker_reset :: "'px stacker_state \<Rightarrow> 'px stacker_state" where
  "Stacker_reset st = st\<lparr>accumulator := None, stack_size := 0\<rparr>"

section \<open>The controller (\<^verbatim>\<open>als/logic.py\<close>)\<close>

datatype session_status = Session_stopped | Session_running | Session_paused

text \<open>
  One record holds the fields of \<^verbatim>\<open>DYNAMIC_DATA\<close> that the controller reads and
  writes (session status, busy flags, the four queues) and the controller's own fields.
  A queue is the list of its pending items, oldest first. The message hub and the
  observers of the display are reporting channels and are left out.
\<close>

record 'px controller =
  session :: session_status
  web_server_is_running :: bool
  has_new_warnings :: bool
  pre_processor_busy :: bool
  stacker_busy :: bool
  post_processor_busy :: bool
  saver_busy :: bool
  input_scanner :: "scanner option"
  pre_process_queue :: "'px image list"
  stacker_queue :: "'px image list"
  post_process_queue :: "'px image list"
  saver_queue :: "'px image list"
  stacker :: "'px stacker_state"
  last_stacking_result :: "'px image option"

definition is_stopped :: "'px controller \<Rightarrow> bool" where
  "is_stopped c = (session c = Session_stopped)"

definition is_running :: "'px controller \<Rightarrow> bool" where
  "is_running c = (session c = Session_running)"

text \<open>
  \<^verbatim>\<open>Controller.__init__\<close>: the state of a controller that was just built. The name
  of the mean stacking mode (\<^verbatim>\<open>I18n.STACKING_MODE_MEAN\<close>) is a parameter.
\<close>

definition Controller_init :: "string \<Rightarrow> 'px controller" where
  "Controller_init mean_mode =
     \<lparr>session = Session_stopped,
      web_server_is_running = False,
      has_new_warnings = False,
      pre_processor_busy = False,
      stacker_busy = False,
      post_processor_busy = False,
      saver_busy = False,
      input_scanner = None,
      pre_process_queue = [],
      stacker_queue = [],
      post_process_queue = [],
      saver_queue = [],
      stacker = \<lparr>accumulator = None, stack_size = 0,
                  stacking_mode = mean_mode, align_before_stack = True\<rparr>,
      last_stacking_result = None\<rparr>"

text \<open>\<^verbatim>\<open>purge_queue\<close>: \<^verbatim>\<open>while not queue.empty(): queue.get()\<close>.\<close>

fun purge_queue :: "'a list \<Rightarrow> 'a list" where
  "purge_queue [] = []"
| "purge_queue (item # pending) = purge_queue pending"

text \<open>\<^verbatim>\<open>on_new_stack_result\<close>.\<close>

definition on_new_stack_result :: "'px image \<Rightarrow> 'px controller \<Rightarrow> 'px controller" where
  "on_new_stack_result img c =
     (let image1 = img\<lparr>origin := Some ''Stacking result''\<rparr>;
          c1 = c\<lparr>last_stacking_result := Some (clone image1)\<rparr>;
          c2 = c1\<lparr>post_process_queue := purge_queue (post_process_queue c1)\<rparr>
      in c2\<lparr>post_process_queue := post_process_queue c2 @ [clone image1]\<rparr>)"

text \<open>
  The folder check of \<^verbatim>\<open>start_session\<close>: the roles in the order of the dictionary,
  the first missing folder raises.
\<close>

definition folders_dict :: "environment \<Rightarrow> (string \<times> string) list" where
  "folders_dict env =
     [(''scan'', scan_folder_path env),
      (''work'', work_folder_path env),
      (''web'', web_folder_path env)]"

fun check_folders :: "(string \<Rightarrow> bool) \<Rightarrow> (string \<times> string) list \<Rightarrow> py_exception option" where
  "check_folders isdir [] = None"
| "check_folders isdir ((role, path) # rest) =
     (if \<not> isdir path
      then Some (CriticalFolderMissing ''Missing critical folder''
                   (''Your currently configured '' @ role @ '' folder '' @ [CHR 0x27] @ path
                    @ [CHR 0x27] @ '' is missing.''))
      else check_folders isdir rest)"

text \<open>The branch of \<^verbatim>\<open>start_session\<close> taken when the session is stopped.\<close>

definition new_session_setup :: "environment \<Rightarrow> 'px controller \<Rightarrow> 'px controller outcome" where
  "new_session_setup env c =
     (case create_scanner (Some (input_system env)) of
        Inl e \<Rightarrow> Raises e c
      | Inr sc \<Rightarrow>
          (let c1 = c\<lparr>input_scanner := Some sc\<rparr>;
               c2 = c1\<lparr>has_new_warnings := False\<rparr>;
               c3 = c2\<lparr>stacker := Stacker_reset (stacker c2)\<rparr>
           in case check_folders (is_dir env) (folders_dict env) of
                Some e \<Rightarrow> Raises e c3
              | None \<Rightarrow> Returns c3))"

text \<open>
  \<^verbatim>\<open>self._input_scanner.start()\<close> inside its \<^verbatim>\<open>try\<close>: a
  \<open>ScannerStartError\<close> becomes a \<open>SessionError\<close>; calling \<^verbatim>\<open>start\<close> on
  \<^verbatim>\<open>None\<close> raises \<open>AttributeError\<close>.
\<close>

definition start_input_scanner :: "environment \<Rightarrow> 'px controller \<Rightarrow> 'px controller outcome" where
  "start_input_scanner env c =
     (case input_scanner c of
        None \<Rightarrow> Raises AttributeError c
      | Some sc \<Rightarrow>
          (case scanner_start env sc of
             Returns sc1 \<Rightarrow> Returns (c\<lparr>input_scanner := Some sc1\<rparr>)
           | Raises e sc1 \<Rightarrow>
               (case e of
                  ScannerStartError scanner_start_error \<Rightarrow>
                    Raises (SessionError ''Input scanner could not start'' scanner_start_error)
                           (c\<lparr>input_scanner := Some sc1\<rparr>)
                | _ \<Rightarrow> Raises e (c\<lparr>input_scanner := Some sc1\<rparr>))))"

text \<open>
  \<^verbatim>\<open>start_session\<close>. The handler \<^verbatim>\<open>except SessionError\<close> reports the error and
  raises it again, so every exception leaves the function with the state as it is then.
  Connecting the scanner's signal to \<^verbatim>\<open>on_new_image_read\<close> changes none of
  the fields below.
\<close>

definition start_session :: "environment \<Rightarrow> 'px controller \<Rightarrow> 'px controller outcome" where
  "start_session env c =
     (case (if is_stopped c then new_session_setup env c else Returns c) of
        Raises e c1 \<Rightarrow> Raises e c1
      | Returns c1 \<Rightarrow>
          (case web_content_error env of
             Some os_error \<Rightarrow>
               Raises (SessionError ''Web folder could not be prepared'' os_error) c1
           | None \<Rightarrow>
               (case start_input_scanner env c1 of
                  Raises e c2 \<Rightarrow> Raises e c2
                | Returns c2 \<Rightarrow> Returns (c2\<lparr>session := Session_running\<rparr>))))"

text \<open>\<^verbatim>\<open>_stop_input_scanner\<close>: \<^verbatim>\<open>self._input_scanner.stop()\<close>.\<close>

definition stop_input_scanner :: "'px controller \<Rightarrow> 'px controller outcome" where
  "stop_input_scanner c =
     (case input_scanner c of
        None \<Rightarrow> Raises AttributeError c
      | Some sc \<Rightarrow> Returns (c\<lparr>input_scanner := Some (scanner_stop sc)\<rparr>))"

text \<open>\<^verbatim>\<open>stop_session\<close>.\<close>

definition stop_session :: "'px controller \<Rightarrow> 'px controller outcome" where
  "stop_session c =
     (if \<not> is_stopped c then
        (case stop_input_scanner (c\<lparr>session := Session_stopped\<rparr>) of
           Raises e c1 \<Rightarrow> Raises e c1
         | Returns c1 \<Rightarrow>
             (let c2 = c1\<lparr>pre_process_queue := purge_queue (pre_process_queue c1)\<rparr>;
                  c3 = c2\<lparr>stacker_queue := purge_queue (stacker_queue c2)\<rparr>
              in Returns (c3\<lparr>post_process_queue := purge_queue (post_process_queue c3)\<rparr>)))
      else Returns c)"

text \<open>\<^verbatim>\<open>pause_session\<close>.\<close>

definition pause_session :: "'px controller \<Rightarrow> 'px controller outcome" where
  "pause_session c =
     (case (if is_running c then stop_input_scanner c else Returns c) of
        Raises e c1 \<Rightarrow> Raises e c1
      | Returns c1 \<Rightarrow> Returns (c1\<lparr>session := Session_paused\<rparr>))"

section \<open>The backpressure gate (\<^verbatim>\<open>FolderScanner.wait_for_resources\<close>)\<close>

text \<open>The condition of the \<^verbatim>\<open>while\<close> loop, read from \<^verbatim>\<open>DYNAMIC_DATA\<close>.\<close>

definition must_wait :: "'px controller \<Rightarrow> bool" where
  "must_wait d =
     (\<not> is_stopped d \<and>
      (stacker_busy d \<or> pre_processor_busy d
       \<or> length (stacker_queue d) > 0 \<or> length (pre_process_queue d) > 0))"

text \<open>
  The other threads change \<^verbatim>\<open>DYNAMIC_DATA\<close> while the gate sleeps: \<open>observed k\<close>
  is what the gate reads at its poll number \<open>k\<close>. The loop may run forever, so the
  result is an option: \<open>Some n\<close> when the gate returns after \<open>n\<close> sleeps of one
  second each, \<open>None\<close> when it never returns.
\<close>

partial_function (option) wait_for_resources :: "(nat \<Rightarrow> 'px controller) \<Rightarrow> nat \<Rightarrow> nat option" where
  "wait_for_resources observed k =
     (if must_wait (observed k) then wait_for_resources observed (Suc k) else Some k)"

section \<open>Properties of the bayer pattern computation\<close>

lemma bayer_pattern_loop_ok:
  "\<forall>k\<in>set rest. k < n \<and> k < length desc \<Longrightarrow>
   bayer_pattern_loop n desc rest acc = Inr (acc @ map ((!) desc) rest)"
  by (induction rest arbitrary: acc) simp_all

lemma bayer_pattern_loop_assert:
  "\<exists>k\<in>set rest. \<not> k < length desc \<Longrightarrow>
   bayer_pattern_loop (length desc) desc rest acc = Inl AssertionError"
  by (induction rest arbitrary: acc) auto

lemma compute_bayer_pattern_ok:
  assumes "length indices = length description"
    and "\<forall>k\<in>set indices. k < length indices"
  shows "compute_bayer_pattern indices description = Inr (map ((!) description) indices)"
  using assms by (simp add: compute_bayer_pattern_def bayer_pattern_loop_ok)

lemma compute_bayer_pattern_assert:
  assumes "length indices \<noteq> length description \<or> (\<exists>k\<in>set indices. \<not> k < length indices)"
  shows "compute_bayer_pattern indices description = Inl AssertionError"
proof (cases "length indices = length description")
  case False
  then show ?thesis by (simp add: compute_bayer_pattern_def)
next
  case True
  with assms have "\<exists>k\<in>set indices. \<not> k < length description" by simp
  then have "bayer_pattern_loop (length description) description indices [] = Inl AssertionError"
    by (rule bayer_pattern_loop_assert)
  with True show ?thesis by (simp add: compute_bayer_pattern_def)
qed

text \<open>
  Claim C1. Whenever the index grid and the colour description have the same length and
  every index is below the number of grid cells, reading the raw image succeeds and the
  stored bayer pattern has one character per grid cell, the character at position \<open>i\<close>
  being \<open>description[indices[i]]\<close>. For the grid \<open>[0,1,3,2]\<close> and the description
  \<open>RGBG\<close> the pattern is \<open>RGGB\<close>.
\<close>

theorem bayer_pattern_canonical:
  assumes "length indices = length description"
    and "\<forall>k\<in>set indices. k < length indices"
  shows "\<exists>img pattern.
           read_raw_image path (RawImage indices description visible) = Inr (Some img)
         \<and> bayer_pattern img = Some pattern
         \<and> length pattern = length indices
         \<and> (\<forall>i<length indices. pattern ! i = description ! (indices ! i))
         \<and> compute_bayer_pattern [0, 1, 3, 2] ''RGBG'' = Inr ''RGGB''"
proof -
  have ok: "compute_bayer_pattern indices description = Inr (map ((!) description) indices)"
    using assms by (rule compute_bayer_pattern_ok)
  have ex: "compute_bayer_pattern [0, 1, 3, 2] ''RGBG'' = Inr ''RGGB''"
    by (simp add: compute_bayer_pattern_def)
  show ?thesis
    using ok ex by (simp add: read_raw_image_def)
qed

theorem bayer_pattern_canonical_witness:
  "\<exists>img. read_raw_image ''/scan/m42.cr2'' (RawImage [0, 1, 3, 2] ''RGBG'' ()) = Inr (Some img)
       \<and> bayer_pattern img = Some ''RGGB''"
proof -
  have len: "length [0, 1, 3, 2 :: nat] = length ''RGBG''" by simp
  have bound: "\<forall>k\<in>set [0, 1, 3, 2 :: nat]. k < length [0, 1, 3, 2 :: nat]" by simp
  from bayer_pattern_canonical [OF len bound, of "''/scan/m42.cr2''" "()"]
  show ?thesis by (auto simp: read_raw_image_def)
qed

text \<open>
  Claim C6, as stated, fails: a grid of two cells with a description of three characters
  makes the decoding fail with Python's \<open>AssertionError\<close>, not with an exception of a
  class named \<open>MalformedBayerMetadata\<close>.
\<close>

theorem malformed_bayer_metadata_counterexample:
  "read_raw_image ''/scan/m42.cr2'' (RawImage [0, 1] ''RGB'' ()) = Inl AssertionError
   \<and> exception_class AssertionError \<noteq> ''MalformedBayerMetadata''"
  by (simp add: read_raw_image_def compute_bayer_pattern_def)

text \<open>
  Claim C6, amended. When the lengths of the index grid and of the description differ, or
  some index is not below the number of grid cells, \<open>_read_raw_image\<close> fails with
  \<open>AssertionError\<close>: the exception leaves the function, no image is returned for this
  file.
\<close>

theorem malformed_bayer_metadata_assertion:
  assumes "length indices \<noteq> length description \<or> (\<exists>k\<in>set indices. \<not> k < length indices)"
  shows "read_raw_image path (RawImage indices description visible) = Inl AssertionError"
  using compute_bayer_pattern_assert [OF assms] by (simp add: read_raw_image_def)

theorem malformed_bayer_metadata_assertion_witness:
  "read_raw_image ''/scan/m42.cr2'' (RawImage [0, 1, 4, 2] ''RGBG'' ()) = Inl AssertionError"
proof -
  have "length [0, 1, 4, 2 :: nat] \<noteq> length ''RGBG''
        \<or> (\<exists>k\<in>set [0, 1, 4, 2 :: nat]. \<not> k < length [0, 1, 4, 2 :: nat])"
    by simp
  then show ?thesis by (rule malformed_bayer_metadata_assertion)
qed

text \<open>
  Claim C10. \<open>create_scanner\<close> gives a \<open>FolderScanner\<close> for \<open>"FS"\<close> and an
  \<open>IndiScanner\<close> for \<open>"INDI"\<close>, raises \<open>ValueError\<close> for every other string, and
  takes \<open>"INDI"\<close> when called with no argument.
\<close>

theorem create_scanner_factory:
  "create_scanner (Some ''FS'') = Inr (FolderScanner None)
   \<and> create_scanner (Some ''INDI'') = Inr (IndiScanner False)
   \<and> (t \<noteq> ''FS'' \<and> t \<noteq> ''INDI'' \<longrightarrow>
        create_scanner (Some t) = Inl (ValueError (''Unsupported scanner type : '' @ t)))
   \<and> create_scanner None = create_scanner (Some ''INDI'')"
  by (simp add: create_scanner_def SCANNER_TYPE_FILESYSTEM_def SCANNER_TYPE_INDI_def)

theorem create_scanner_factory_witness:
  "create_scanner (Some ''USB'') = Inl (ValueError ''Unsupported scanner type : USB'')"
  using create_scanner_factory [of "''USB''"] by simp

section \<open>Properties of the controller and of the backpressure gate\<close>

lemma purge_queue_empty: "purge_queue q = []"
  by (induction q) simp_all

lemma wait_some:
  assumes "wait_for_resources observed k = Some n"
  shows "k \<le> n \<and> \<not> must_wait (observed n)
         \<and> (\<forall>j. k \<le> j \<and> j < n \<longrightarrow> must_wait (observed j))"
proof (rule wait_for_resources.raw_induct
         [where P = "\<lambda>obs k n. k \<le> n \<and> \<not> must_wait (obs n)
                       \<and> (\<forall>j. k \<le> j \<and> j < n \<longrightarrow> must_wait (obs j))",
          OF _ assms])
  fix w and obs :: "nat \<Rightarrow> 'a controller" and k n
  assume ih: "\<And>obs k n. w obs k = Some n \<Longrightarrow>
                k \<le> n \<and> \<not> must_wait (obs n)
                \<and> (\<forall>j. k \<le> j \<and> j < n \<longrightarrow> must_wait (obs j))"
    and eq: "(if must_wait (obs k) then w obs (Suc k) else Some k) = Some n"
  show "k \<le> n \<and> \<not> must_wait (obs n)
        \<and> (\<forall>j. k \<le> j \<and> j < n \<longrightarrow> must_wait (obs j))"
  proof (cases "must_wait (obs k)")
    case True
    with eq have "w obs (Suc k) = Some n" by simp
    then have step: "Suc k \<le> n \<and> \<not> must_wait (obs n)
                     \<and> (\<forall>j. Suc k \<le> j \<and> j < n \<longrightarrow> must_wait (obs j))"
      by (rule ih)
    have "must_wait (obs j)" if "k \<le> j" "j < n" for j
    proof (cases "j = k")
      case True
      with \<open>must_wait (obs k)\<close> show ?thesis by simp
    next
      case False
      with that have "Suc k \<le> j" by simp
      with step that show ?thesis by blast
    qed
    with step show ?thesis by auto
  next
    case False
    with eq show ?thesis by auto
  qed
qed

lemma wait_run:
  "k \<le> n \<Longrightarrow> \<not> must_wait (observed n) \<Longrightarrow> (\<forall>j. k \<le> j \<and> j < n \<longrightarrow> must_wait (observed j)) \<Longrightarrow>
   wait_for_resources observed k = Some n"
proof (induction "n - k" arbitrary: k)
  case 0
  then have "k = n" by simp
  with 0 show ?case by (subst wait_for_resources.simps) simp
next
  case (Suc d)
  then have lt: "k < n" by simp
  with Suc.prems have mw: "must_wait (observed k)" by simp
  have "wait_for_resources observed (Suc k) = Some n"
    using Suc lt by (intro Suc.hyps(1)) auto
  with mw show ?case by (subst wait_for_resources.simps) simp
qed


lemma must_wait_iff:
  "must_wait d \<longleftrightarrow>
     \<not> is_stopped d \<and>
     (pre_process_queue d \<noteq> [] \<or> stacker_queue d \<noteq> []
      \<or> pre_processor_busy d \<or> stacker_busy d)"
  by (auto simp: must_wait_def)

lemma wait_none:
  "wait_for_resources observed 0 = None \<longleftrightarrow> (\<forall>j. must_wait (observed j))"
proof
  assume none: "wait_for_resources observed 0 = None"
  show "\<forall>j. must_wait (observed j)"
  proof (rule ccontr)
    assume "\<not> (\<forall>j. must_wait (observed j))"
    then obtain j where j: "\<not> must_wait (observed j)" by blast
    define m where "m = (LEAST i. \<not> must_wait (observed i))"
    have m1: "\<not> must_wait (observed m)"
      unfolding m_def using j by (rule LeastI)
    have m2: "\<forall>i. 0 \<le> i \<and> i < m \<longrightarrow> must_wait (observed i)"
      unfolding m_def using not_less_Least by blast
    have "wait_for_resources observed 0 = Some m"
      using m1 m2 by (intro wait_run) simp_all
    with none show False by simp
  qed
next
  assume all: "\<forall>j. must_wait (observed j)"
  show "wait_for_resources observed 0 = None"
  proof (cases "wait_for_resources observed 0")
    case None
    then show ?thesis .
  next
    case (Some n)
    from wait_some [OF this] all show ?thesis by blast
  qed
qed

text \<open>
  Claim C5. Started at its first poll, the gate returns after \<open>n\<close> sleeps exactly when
  poll \<open>n\<close> is the first at which the session is stopped or all four indicators are
  clear (pre-process queue empty, stacker queue empty, pre-processor not busy, stacker
  not busy): at every earlier poll the session is not stopped and some indicator is set,
  and the gate sleeps one second and polls again. It never returns exactly when, at
  every poll, the session is not stopped and some indicator is set.
\<close>

theorem wait_for_resources_returns:
  "(wait_for_resources observed 0 = Some n \<longleftrightarrow>
      (is_stopped (observed n)
       \<or> (pre_process_queue (observed n) = [] \<and> stacker_queue (observed n) = []
          \<and> \<not> pre_processor_busy (observed n) \<and> \<not> stacker_busy (observed n)))
      \<and> (\<forall>j<n. \<not> is_stopped (observed j)
                \<and> (pre_process_queue (observed j) \<noteq> [] \<or> stacker_queue (observed j) \<noteq> []
                   \<or> pre_processor_busy (observed j) \<or> stacker_busy (observed j))))
   \<and> (wait_for_resources observed 0 = None \<longleftrightarrow>
        (\<forall>j. \<not> is_stopped (observed j)
             \<and> (pre_process_queue (observed j) \<noteq> [] \<or> stacker_queue (observed j) \<noteq> []
                \<or> pre_processor_busy (observed j) \<or> stacker_busy (observed j))))"
proof -
  have some: "wait_for_resources observed 0 = Some n \<longleftrightarrow>
                \<not> must_wait (observed n) \<and> (\<forall>j<n. must_wait (observed j))"
  proof
    assume "wait_for_resources observed 0 = Some n"
    from wait_some [OF this] show "\<not> must_wait (observed n) \<and> (\<forall>j<n. must_wait (observed j))"
      by simp
  next
    assume "\<not> must_wait (observed n) \<and> (\<forall>j<n. must_wait (observed j))"
    then show "wait_for_resources observed 0 = Some n"
      by (intro wait_run) simp_all
  qed
  show ?thesis
    unfolding some wait_none must_wait_iff by blast
qed

theorem wait_for_resources_returns_witness:
  "wait_for_resources
     (\<lambda>k. (Controller_init ''mean'' :: unit controller)
              \<lparr>session := (if k < 3 then Session_running else Session_stopped),
               pre_process_queue := [Image ()]\<rparr>) 0 = Some 3"
  using wait_for_resources_returns
    [of "\<lambda>k. (Controller_init ''mean'' :: unit controller)
              \<lparr>session := (if k < 3 then Session_running else Session_stopped),
               pre_process_queue := [Image ()]\<rparr>" 3]
  by (simp add: is_stopped_def)

text \<open>
  Claim C9. After \<open>on_new_stack_result\<close> the post-process queue holds exactly one item,
  a clone of the new stacking result (its origin set to "Stacking result"); whatever was
  pending there before is gone. The same clone is kept as the last stacking result.
\<close>

theorem on_new_stack_result_replaces_queue:
  "post_process_queue (on_new_stack_result img c)
     = [clone (img\<lparr>origin := Some ''Stacking result''\<rparr>)]
   \<and> length (post_process_queue (on_new_stack_result img c)) = 1
   \<and> last_stacking_result (on_new_stack_result img c)
     = Some (clone (img\<lparr>origin := Some ''Stacking result''\<rparr>))"
  by (simp add: on_new_stack_result_def purge_queue_empty Let_def)

lemmas session_defs =
  start_session_def new_session_setup_def start_input_scanner_def stop_session_def
  stop_input_scanner_def pause_session_def is_stopped_def is_running_def is_dir_def

text \<open>
  Claim C4, as stated, fails: \<open>stop_session\<close> purges three of the four queues. A running
  session with an image waiting in the saver queue still has it there after the stop.
\<close>

theorem stop_session_saver_queue_counterexample:
  "is_running ((Controller_init ''mean'' :: unit controller)
      \<lparr>session := Session_running, input_scanner := Some (FolderScanner (Some True)),
       saver_queue := [Image ()]\<rparr>)
   \<and> saver_queue (final (stop_session ((Controller_init ''mean'' :: unit controller)
      \<lparr>session := Session_running, input_scanner := Some (FolderScanner (Some True)),
       saver_queue := [Image ()]\<rparr>))) \<noteq> []"
  by (simp add: session_defs Controller_init_def)

lemma scanner_stop_not_scanning: "\<not> scanning (scanner_stop sc)"
  by (cases sc) auto

text \<open>
  Claim C4, amended. Called while the session is running or paused, with an input scanner
  in place, \<open>stop_session\<close> returns normally, sets the status to stopped, stops the
  scanner (it ingests no more), and leaves the pre-process, stacker and post-process
  queues empty; the saver queue is not purged.
\<close>

theorem stop_session_purges:
  assumes "session c = Session_running \<or> session c = Session_paused"
    and "input_scanner c = Some sc"
  shows "stop_session c =
           Returns (c\<lparr>session := Session_stopped,
                      input_scanner := Some (scanner_stop sc),
                      pre_process_queue := [],
                      stacker_queue := [],
                      post_process_queue := []\<rparr>)
         \<and> \<not> scanning (scanner_stop sc)
         \<and> saver_queue (final (stop_session c)) = saver_queue c"
  using assms
  by (auto simp: session_defs purge_queue_empty scanner_stop_not_scanning Let_def)

theorem stop_session_purges_witness:
  "stop_session ((Controller_init ''mean'' :: unit controller)
      \<lparr>session := Session_running, input_scanner := Some (FolderScanner (Some True)),
       pre_process_queue := [Image ()], saver_queue := [Image ()]\<rparr>)
   = Returns ((Controller_init ''mean'')
      \<lparr>session := Session_stopped, input_scanner := Some (FolderScanner None),
       pre_process_queue := [], saver_queue := [Image ()]\<rparr>)"
  using stop_session_purges
    [of "(Controller_init ''mean'' :: unit controller)
      \<lparr>session := Session_running, input_scanner := Some (FolderScanner (Some True)),
       pre_process_queue := [Image ()], saver_queue := [Image ()]\<rparr>"
     "FolderScanner (Some True)"]
  by (simp add: Controller_init_def)


lemma create_scanner_supported:
  "t = ''FS'' \<or> t = ''INDI'' \<Longrightarrow> \<exists>sc. create_scanner (Some t) = Inr sc \<and> \<not> scanning sc"
  by (auto simp: create_scanner_def SCANNER_TYPE_FILESYSTEM_def SCANNER_TYPE_INDI_def)

lemma start_input_scanner_frame:
  "stacker (final (start_input_scanner env c)) = stacker c
   \<and> session (final (start_input_scanner env c)) = session c
   \<and> pre_process_queue (final (start_input_scanner env c)) = pre_process_queue c
   \<and> stacker_queue (final (start_input_scanner env c)) = stacker_queue c
   \<and> post_process_queue (final (start_input_scanner env c)) = post_process_queue c
   \<and> saver_queue (final (start_input_scanner env c)) = saver_queue c"
  by (auto simp: start_input_scanner_def split: option.splits outcome.splits py_exception.splits)

text \<open>
  Claim C3, as stated, fails: starting a new session from stopped calls
  \<^verbatim>\<open>self._stacker.reset()\<close>. A stopped controller whose stacker holds three frames
  has an empty accumulator with count zero once the session runs.
\<close>

theorem start_session_resets_stacker_counterexample:
  "stack_size (stacker ((Controller_init ''mean'' :: unit controller)
      \<lparr>stacker := \<lparr>accumulator = Some (Image ()), stack_size = 3,
                    stacking_mode = ''mean'', align_before_stack = True\<rparr>\<rparr>)) = 3
   \<and> start_session
        \<lparr>input_system = ''FS'', scan_folder_path = ''/scan'', work_folder_path = ''/work'',
         web_folder_path = ''/web'', directories = {''/scan'', ''/work'', ''/web''},
         web_content_error = None,
         observer_error = None, indi_connects = True\<rparr>
        ((Controller_init ''mean'' :: unit controller)
          \<lparr>stacker := \<lparr>accumulator = Some (Image ()), stack_size = 3,
                        stacking_mode = ''mean'', align_before_stack = True\<rparr>\<rparr>)
      = Returns ((Controller_init ''mean'')
          \<lparr>session := Session_running,
           input_scanner := Some (FolderScanner (Some True)),
           stacker := \<lparr>accumulator = None, stack_size = 0,
                        stacking_mode = ''mean'', align_before_stack = True\<rparr>\<rparr>)"
  by (simp add: session_defs Controller_init_def create_scanner_def folders_dict_def
        SCANNER_TYPE_FILESYSTEM_def SCANNER_TYPE_INDI_def Stacker_reset_def)

text \<open>
  Claim C3, amended. Stopping a session, pausing it and restarting it from paused (or
  calling start while it runs) leave the stacker as it is; starting a session from
  stopped with a supported input system resets the stacker, whether or not the start
  then succeeds.
\<close>

theorem stacker_reset_by_new_session_only:
  "stacker (final (stop_session c)) = stacker c
   \<and> stacker (final (pause_session c)) = stacker c
   \<and> (session c \<noteq> Session_stopped \<longrightarrow> stacker (final (start_session env c)) = stacker c)
   \<and> (session c = Session_stopped \<and> (input_system env = ''FS'' \<or> input_system env = ''INDI'')
        \<longrightarrow> stacker (final (start_session env c)) = Stacker_reset (stacker c))"
proof -
  have a: "stacker (final (stop_session c)) = stacker c"
    by (auto simp: stop_session_def stop_input_scanner_def Let_def split: option.splits)
  have b: "stacker (final (pause_session c)) = stacker c"
    by (auto simp: pause_session_def stop_input_scanner_def split: option.splits)
  have c: "stacker (final (start_session env c)) = stacker c" if "session c \<noteq> Session_stopped"
    using that start_input_scanner_frame [of env c]
    by (auto simp: start_session_def is_stopped_def split: option.splits outcome.splits)
  have d: "stacker (final (start_session env c)) = Stacker_reset (stacker c)"
    if "session c = Session_stopped" and "input_system env = ''FS'' \<or> input_system env = ''INDI''"
  proof -
    from create_scanner_supported [OF that(2)]
    obtain sc where sc: "create_scanner (Some (input_system env)) = Inr sc" by blast
    show ?thesis
      using that(1) sc
        start_input_scanner_frame
          [of env "c\<lparr>input_scanner := Some sc, has_new_warnings := False,
                      stacker := Stacker_reset (stacker c)\<rparr>"]
      by (auto simp: start_session_def new_session_setup_def is_stopped_def Let_def
               split: option.splits outcome.splits)
  qed
  from a b c d show ?thesis by blast
qed


theorem stacker_reset_by_new_session_only_witness:
  "stack_size (stacker (final (start_session
        \<lparr>input_system = ''FS'', scan_folder_path = ''/scan'', work_folder_path = ''/work'',
         web_folder_path = ''/web'', directories = {''/scan'', ''/work'', ''/web''},
         web_content_error = None,
         observer_error = None, indi_connects = True\<rparr>
        ((Controller_init ''mean'' :: unit controller)
          \<lparr>session := Session_paused, input_scanner := Some (FolderScanner None),
           stacker := \<lparr>accumulator = Some (Image ()), stack_size = 3,
                        stacking_mode = ''mean'', align_before_stack = True\<rparr>\<rparr>)))) = 3
   \<and> stack_size (stacker (final (start_session
        \<lparr>input_system = ''FS'', scan_folder_path = ''/scan'', work_folder_path = ''/work'',
         web_folder_path = ''/web'', directories = {''/scan'', ''/work'', ''/web''},
         web_content_error = None,
         observer_error = None, indi_connects = True\<rparr>
        ((Controller_init ''mean'' :: unit controller)
          \<lparr>stacker := \<lparr>accumulator = Some (Image ()), stack_size = 3,
                        stacking_mode = ''mean'', align_before_stack = True\<rparr>\<rparr>)))) = 0"
  using
    stacker_reset_by_new_session_only
      [of "(Controller_init ''mean'' :: unit controller)
          \<lparr>session := Session_paused, input_scanner := Some (FolderScanner None),
           stacker := \<lparr>accumulator = Some (Image ()), stack_size = 3,
                        stacking_mode = ''mean'', align_before_stack = True\<rparr>\<rparr>"
          "\<lparr>input_system = ''FS'', scan_folder_path = ''/scan'', work_folder_path = ''/work'',
         web_folder_path = ''/web'', directories = {''/scan'', ''/work'', ''/web''},
         web_content_error = None,
         observer_error = None, indi_connects = True\<rparr>"]
    stacker_reset_by_new_session_only
      [of "(Controller_init ''mean'' :: unit controller)
          \<lparr>stacker := \<lparr>accumulator = Some (Image ()), stack_size = 3,
                        stacking_mode = ''mean'', align_before_stack = True\<rparr>\<rparr>"
          "\<lparr>input_system = ''FS'', scan_folder_path = ''/scan'', work_folder_path = ''/work'',
         web_folder_path = ''/web'', directories = {''/scan'', ''/work'', ''/web''},
         web_content_error = None,
         observer_error = None, indi_connects = True\<rparr>"]
  by (simp add: Controller_init_def Stacker_reset_def)

text \<open>
  Claim C7, as stated, fails: a failed start leaves the status as it was, which is not
  always stopped. Restarting a paused session whose folder scanner cannot start raises
  the session error and the session stays paused.
\<close>

theorem start_session_failure_counterexample:
  "start_session
     \<lparr>input_system = ''FS'', scan_folder_path = ''/scan'', work_folder_path = ''/work'',
      web_folder_path = ''/web'', directories = {''/scan'', ''/work'', ''/web''},
      web_content_error = None,
      observer_error = Some ''No such file or directory'', indi_connects = True\<rparr>
     ((Controller_init ''mean'' :: unit controller)
        \<lparr>session := Session_paused, input_scanner := Some (FolderScanner None)\<rparr>)
   = Raises (SessionError ''Input scanner could not start'' ''No such file or directory'')
       ((Controller_init ''mean'')
          \<lparr>session := Session_paused, input_scanner := Some (FolderScanner (Some False))\<rparr>)
   \<and> session (final (start_session
     \<lparr>input_system = ''FS'', scan_folder_path = ''/scan'', work_folder_path = ''/work'',
      web_folder_path = ''/web'', directories = {''/scan'', ''/work'', ''/web''},
      web_content_error = None,
      observer_error = Some ''No such file or directory'', indi_connects = True\<rparr>
     ((Controller_init ''mean'' :: unit controller)
        \<lparr>session := Session_paused, input_scanner := Some (FolderScanner None)\<rparr>)))
     \<noteq> Session_stopped"
  by (simp add: session_defs Controller_init_def)

lemma check_folders_missing:
  "\<not> (is_dir env (scan_folder_path env) \<and> is_dir env (work_folder_path env)
      \<and> is_dir env (web_folder_path env)) \<Longrightarrow>
   \<exists>details. check_folders (is_dir env) (folders_dict env)
     = Some (CriticalFolderMissing ''Missing critical folder'' details)"
  by (auto simp: folders_dict_def)

lemma check_folders_present:
  "is_dir env (scan_folder_path env) \<and> is_dir env (work_folder_path env)
      \<and> is_dir env (web_folder_path env) \<Longrightarrow>
   check_folders (is_dir env) (folders_dict env) = None"
  by (simp add: folders_dict_def)

lemma check_folders_class:
  "check_folders isdir fs = Some e \<Longrightarrow> is_SessionError e"
  by (induction isdir fs rule: check_folders.induct) (auto split: if_splits)

lemma new_session_setup_raises:
  "new_session_setup env c = Raises e c' \<Longrightarrow>
   session c' = session c
   \<and> pre_process_queue c' = pre_process_queue c \<and> stacker_queue c' = stacker_queue c
   \<and> post_process_queue c' = post_process_queue c \<and> saver_queue c' = saver_queue c
   \<and> (is_SessionError e \<longrightarrow> (\<exists>sc. input_scanner c' = Some sc \<and> \<not> scanning sc))"
  by (auto simp: new_session_setup_def create_scanner_def Let_def
           split: sum.splits option.splits if_splits)

lemma new_session_setup_returns:
  "new_session_setup env c = Returns c' \<Longrightarrow>
   session c' = session c
   \<and> pre_process_queue c' = pre_process_queue c \<and> stacker_queue c' = stacker_queue c
   \<and> post_process_queue c' = post_process_queue c \<and> saver_queue c' = saver_queue c
   \<and> (\<exists>sc. input_scanner c' = Some sc \<and> \<not> scanning sc)"
  by (auto simp: new_session_setup_def create_scanner_def Let_def
           split: sum.splits option.splits if_splits)

lemma scanner_start_raises:
  "scanner_start env sc = Raises e sc' \<Longrightarrow> \<not> scanning sc' \<and> (\<exists>m. e = ScannerStartError m)"
  by (cases sc) (auto split: option.splits)

lemma start_input_scanner_raises:
  "start_input_scanner env c = Raises e c' \<Longrightarrow>
   session c' = session c
   \<and> pre_process_queue c' = pre_process_queue c \<and> stacker_queue c' = stacker_queue c
   \<and> post_process_queue c' = post_process_queue c \<and> saver_queue c' = saver_queue c
   \<and> (is_SessionError e \<longrightarrow> (\<exists>sc. input_scanner c' = Some sc \<and> \<not> scanning sc))"
  by (auto simp: start_input_scanner_def
           split: option.splits outcome.splits py_exception.splits
           dest: scanner_start_raises)


lemma start_session_raises:
  assumes "start_session env c = Raises e c'"
  shows "session c' = session c
   \<and> pre_process_queue c' = pre_process_queue c \<and> stacker_queue c' = stacker_queue c
   \<and> post_process_queue c' = post_process_queue c \<and> saver_queue c' = saver_queue c
   \<and> (session c = Session_stopped \<and> is_SessionError e
        \<longrightarrow> (\<exists>sc. input_scanner c' = Some sc \<and> \<not> scanning sc))"
proof (cases "is_stopped c")
  case False
  with assms show ?thesis
    by (auto simp: start_session_def is_stopped_def
             split: option.splits outcome.splits dest: start_input_scanner_raises)
next
  case True
  show ?thesis
  proof (cases "new_session_setup env c")
    case (Raises e1 c1)
    with True assms have "e1 = e" "c1 = c'" by (simp_all add: start_session_def)
    with Raises new_session_setup_raises [of env c e c'] show ?thesis by simp
  next
    case (Returns c1)
    note ready = new_session_setup_returns [OF Returns]
    show ?thesis
    proof (cases "web_content_error env")
      case (Some os_error)
      with True Returns assms have "c' = c1" by (simp add: start_session_def)
      with ready show ?thesis by simp
    next
      case None
      with True Returns assms have "start_input_scanner env c1 = Raises e c'"
        by (simp add: start_session_def split: outcome.splits)
      from start_input_scanner_raises [OF this] ready show ?thesis by simp
    qed
  qed
qed

text \<open>
  Claim C7, amended. Started from stopped with a supported input system,
  \<open>start_session\<close> raises \<open>CriticalFolderMissing\<close> with the title
  "Missing critical folder" and details when the scan, work or web folder is missing; when
  the folders are there, the web content is prepared and the folder observer fails to
  start, it raises \<open>SessionError\<close> with the title "Input scanner could not start" and
  the error as details. Whenever \<open>start_session\<close> raises, the session status and the
  four queues are as before the call (so a start from stopped stays stopped, a restart
  from paused stays paused), and after a session error of a start from stopped the
  scanner that was created is not ingesting.
\<close>

theorem start_session_failure:
  "(session c = Session_stopped
      \<and> (input_system env = ''FS'' \<or> input_system env = ''INDI'')
      \<and> \<not> (is_dir env (scan_folder_path env) \<and> is_dir env (work_folder_path env)
             \<and> is_dir env (web_folder_path env))
    \<longrightarrow> (\<exists>details c'.
           start_session env c
             = Raises (CriticalFolderMissing ''Missing critical folder'' details) c'))
   \<and> (session c = Session_stopped \<and> input_system env = ''FS''
      \<and> is_dir env (scan_folder_path env) \<and> is_dir env (work_folder_path env)
      \<and> is_dir env (web_folder_path env)
      \<and> web_content_error env = None \<and> observer_error env = Some os_error
    \<longrightarrow> (\<exists>c'. start_session env c
             = Raises (SessionError ''Input scanner could not start'' os_error) c'))
   \<and> (start_session env c = Raises e c'
    \<longrightarrow> session c' = session c
        \<and> pre_process_queue c' = pre_process_queue c \<and> stacker_queue c' = stacker_queue c
        \<and> post_process_queue c' = post_process_queue c \<and> saver_queue c' = saver_queue c
        \<and> (session c = Session_stopped \<and> is_SessionError e
             \<longrightarrow> (\<exists>sc. input_scanner c' = Some sc \<and> \<not> scanning sc)))"
proof -
  have folder: "\<exists>details c'.
           start_session env c
             = Raises (CriticalFolderMissing ''Missing critical folder'' details) c'"
    if "session c = Session_stopped"
      and "input_system env = ''FS'' \<or> input_system env = ''INDI''"
      and "\<not> (is_dir env (scan_folder_path env) \<and> is_dir env (work_folder_path env)
             \<and> is_dir env (web_folder_path env))"
  proof -
    from create_scanner_supported [OF that(2)]
    obtain sc where sc: "create_scanner (Some (input_system env)) = Inr sc" by blast
    from check_folders_missing [OF that(3)]
    obtain details where
      "check_folders (is_dir env) (folders_dict env)
         = Some (CriticalFolderMissing ''Missing critical folder'' details)" by blast
    with sc that(1) show ?thesis
      by (simp add: start_session_def new_session_setup_def is_stopped_def Let_def)
  qed
  have scan: "\<exists>c'. start_session env c
             = Raises (SessionError ''Input scanner could not start'' os_error) c'"
    if "session c = Session_stopped" and "input_system env = ''FS''"
      and "is_dir env (scan_folder_path env) \<and> is_dir env (work_folder_path env)
           \<and> is_dir env (web_folder_path env)"
      and "web_content_error env = None" and "observer_error env = Some os_error"
    using that check_folders_present [OF that(3)]
    by (simp add: start_session_def new_session_setup_def is_stopped_def Let_def
          create_scanner_def SCANNER_TYPE_FILESYSTEM_def start_input_scanner_def)
  from folder scan start_session_raises [of env c e c'] show ?thesis by blast
qed

theorem start_session_failure_witness:
  "start_session
     \<lparr>input_system = ''FS'', scan_folder_path = ''/scan'', work_folder_path = ''/work'',
      web_folder_path = ''/web'', directories = {''/scan'', ''/web''},
      web_content_error = None,
      observer_error = None, indi_connects = True\<rparr>
     (Controller_init ''mean'' :: unit controller)
   = Raises (CriticalFolderMissing ''Missing critical folder''
               (''Your currently configured work folder '' @ [CHR 0x27] @ ''/work''
                @ [CHR 0x27] @ '' is missing.''))
       ((Controller_init ''mean'') \<lparr>input_scanner := Some (FolderScanner None)\<rparr>)
   \<and> start_session
     \<lparr>input_system = ''FS'', scan_folder_path = ''/scan'', work_folder_path = ''/work'',
      web_folder_path = ''/web'', directories = {''/scan'', ''/work'', ''/web''},
      web_content_error = None,
      observer_error = Some ''No such file or directory'', indi_connects = True\<rparr>
     (Controller_init ''mean'' :: unit controller)
   = Raises (SessionError ''Input scanner could not start'' ''No such file or directory'')
       ((Controller_init ''mean'') \<lparr>input_scanner := Some (FolderScanner (Some False))\<rparr>)"
  using
    start_session_failure
      [of "Controller_init ''mean'' :: unit controller"
          "\<lparr>input_system = ''FS'', scan_folder_path = ''/scan'', work_folder_path = ''/work'',
            web_folder_path = ''/web'', directories = {''/scan'', ''/web''},
            web_content_error = None,
            observer_error = None, indi_connects = True\<rparr>"
          "''No such file or directory''"
          "CriticalFolderMissing ''Missing critical folder''
               (''Your currently configured work folder '' @ [CHR 0x27] @ ''/work''
                @ [CHR 0x27] @ '' is missing.'')"
          "(Controller_init ''mean'') \<lparr>input_scanner := Some (FolderScanner None)\<rparr>"]
    start_session_failure
      [of "Controller_init ''mean'' :: unit controller"
          "\<lparr>input_system = ''FS'', scan_folder_path = ''/scan'', work_folder_path = ''/work'',
            web_folder_path = ''/web'', directories = {''/scan'', ''/work'', ''/web''},
            web_content_error = None,
            observer_error = Some ''No such file or directory'', indi_connects = True\<rparr>"
          "''No such file or directory''"
          "SessionError ''Input scanner could not start'' ''No such file or directory''"
          "(Controller_init ''mean'') \<lparr>input_scanner := Some (FolderScanner (Some False))\<rparr>"]
  by (simp add: session_defs Controller_init_def create_scanner_def folders_dict_def
        SCANNER_TYPE_FILESYSTEM_def SCANNER_TYPE_INDI_def Stacker_reset_def)


lemma scanner_start_env:
  "scanner_start (env\<lparr>input_system := t, directories := d\<rparr>) sc = scanner_start env sc"
  by (cases sc) simp_all

lemma start_input_scanner_env:
  "start_input_scanner (env\<lparr>input_system := t, directories := d\<rparr>) c = start_input_scanner env c"
  by (simp add: start_input_scanner_def scanner_start_env split: option.splits)

lemma start_input_scanner_scanner:
  "input_scanner (final (start_input_scanner env c)) = input_scanner c
   \<or> (\<exists>sc. input_scanner c = Some sc
        \<and> input_scanner (final (start_input_scanner env c)) = Some (final (scanner_start env sc)))"
  by (auto simp: start_input_scanner_def split: option.splits outcome.splits py_exception.splits)

lemma start_input_scanner_flags:
  "has_new_warnings (final (start_input_scanner env c)) = has_new_warnings c
   \<and> last_stacking_result (final (start_input_scanner env c)) = last_stacking_result c"
  by (auto simp: start_input_scanner_def split: option.splits outcome.splits py_exception.splits)

text \<open>
  Claim C8. Calling \<open>start_session\<close> while the session is paused restarts ingestion and
  nothing else of the session: once the web content is prepared, the scanner that was
  there (no new one is created) is started, and when its start returns the session is
  running with that started scanner, every other field as before; when the web content
  cannot be prepared or the scanner cannot start, the session error is raised and the
  session stays paused. In every case the four queues, the stacker and the warning flag
  are as before the call, and the outcome does not depend on which paths are directories
  nor on the configured input system: the folder checks and the scanner creation of a
  fresh session are not run.
\<close>

theorem restart_from_paused:
  assumes "session c = Session_paused"
  shows "pre_process_queue (final (start_session env c)) = pre_process_queue c
       \<and> stacker_queue (final (start_session env c)) = stacker_queue c
       \<and> post_process_queue (final (start_session env c)) = post_process_queue c
       \<and> saver_queue (final (start_session env c)) = saver_queue c
       \<and> stacker (final (start_session env c)) = stacker c
       \<and> has_new_warnings (final (start_session env c)) = has_new_warnings c
       \<and> start_session (env\<lparr>input_system := t, directories := d\<rparr>) c = start_session env c
       \<and> (input_scanner (final (start_session env c)) = input_scanner c
          \<or> (\<exists>sc. input_scanner c = Some sc
               \<and> input_scanner (final (start_session env c))
                  = Some (final (scanner_start env sc))))
       \<and> (web_content_error env = None \<and> input_scanner c = Some sc
            \<and> scanner_start env sc = Returns sc1
          \<longrightarrow> start_session env c
                = Returns (c\<lparr>input_scanner := Some sc1, session := Session_running\<rparr>))
       \<and> (web_content_error env = None \<and> input_scanner c = Some (FolderScanner ob)
            \<and> observer_error env = None
          \<longrightarrow> start_session env c
                = Returns (c\<lparr>input_scanner := Some (FolderScanner (Some True)),
                             session := Session_running\<rparr>)
              \<and> scanning (FolderScanner (Some True)))
       \<and> (web_content_error env = None \<and> input_scanner c = Some (IndiScanner connected)
          \<longrightarrow> start_session env c
                = Returns (c\<lparr>input_scanner :=
                               Some (IndiScanner (connected \<or> indi_connects env)),
                             session := Session_running\<rparr>))
       \<and> (web_content_error env = None \<and> input_scanner c = Some (FolderScanner ob)
            \<and> observer_error env = Some os_error
          \<longrightarrow> start_session env c
                = Raises (SessionError ''Input scanner could not start'' os_error)
                    (c\<lparr>input_scanner := Some (FolderScanner (Some False))\<rparr>))
       \<and> (web_content_error env = Some web_error
          \<longrightarrow> start_session env c
                = Raises (SessionError ''Web folder could not be prepared'' web_error) c)"
proof -
  have ns: "\<not> is_stopped c" using assms by (simp add: is_stopped_def)
  have shape: "final (start_session env c) = c
       \<or> final (start_session env c) = final (start_input_scanner env c)
       \<or> final (start_session env c)
            = (final (start_input_scanner env c))\<lparr>session := Session_running\<rparr>"
    using ns by (auto simp: start_session_def split: option.splits outcome.splits)
  have indep: "start_session (env\<lparr>input_system := t, directories := d\<rparr>) c = start_session env c"
    using ns by (simp add: start_session_def start_input_scanner_env split: option.splits)
  from shape start_input_scanner_frame [of env c] start_input_scanner_flags [of env c]
  have frame: "pre_process_queue (final (start_session env c)) = pre_process_queue c
       \<and> stacker_queue (final (start_session env c)) = stacker_queue c
       \<and> post_process_queue (final (start_session env c)) = post_process_queue c
       \<and> saver_queue (final (start_session env c)) = saver_queue c
       \<and> stacker (final (start_session env c)) = stacker c
       \<and> has_new_warnings (final (start_session env c)) = has_new_warnings c"
    by auto
  from shape start_input_scanner_scanner [of env c]
  have scan: "input_scanner (final (start_session env c)) = input_scanner c
          \<or> (\<exists>sc. input_scanner c = Some sc
               \<and> input_scanner (final (start_session env c))
                  = Some (final (scanner_start env sc)))"
    by auto
  have started: "start_session env c
                = Returns (c\<lparr>input_scanner := Some sc1, session := Session_running\<rparr>)"
    if "web_content_error env = None" "input_scanner c = Some sc"
       "scanner_start env sc = Returns sc1"
    using ns that by (simp add: start_session_def start_input_scanner_def)
  have folder: "start_session env c
                = Returns (c\<lparr>input_scanner := Some (FolderScanner (Some True)),
                             session := Session_running\<rparr>)
              \<and> scanning (FolderScanner (Some True))"
    if "web_content_error env = None" "input_scanner c = Some (FolderScanner ob)"
       "observer_error env = None"
    using ns that by (simp add: start_session_def start_input_scanner_def)
  have indi: "start_session env c
                = Returns (c\<lparr>input_scanner :=
                               Some (IndiScanner (connected \<or> indi_connects env)),
                             session := Session_running\<rparr>)"
    if "web_content_error env = None" "input_scanner c = Some (IndiScanner connected)"
    using ns that by (auto simp: start_session_def start_input_scanner_def)
  have failed: "start_session env c
                = Raises (SessionError ''Input scanner could not start'' os_error)
                    (c\<lparr>input_scanner := Some (FolderScanner (Some False))\<rparr>)"
    if "web_content_error env = None" "input_scanner c = Some (FolderScanner ob)"
       "observer_error env = Some os_error"
    using ns that by (simp add: start_session_def start_input_scanner_def)
  have web: "start_session env c
                = Raises (SessionError ''Web folder could not be prepared'' web_error) c"
    if "web_content_error env = Some web_error"
    using ns that by (simp add: start_session_def)
  from frame indep scan started folder indi failed web show ?thesis by blast
qed

theorem restart_from_paused_witness:
  "start_session
     \<lparr>input_system = ''unknown'', scan_folder_path = ''/scan'', work_folder_path = ''/work'',
      web_folder_path = ''/web'', directories = {''/scan'', ''/web''},
      web_content_error = None,
      observer_error = None, indi_connects = True\<rparr>
     ((Controller_init ''mean'' :: unit controller)
        \<lparr>session := Session_paused, input_scanner := Some (FolderScanner None),
         stacker_queue := [Image ()],
         stacker := \<lparr>accumulator = Some (Image ()), stack_size = 3,
                      stacking_mode = ''mean'', align_before_stack = True\<rparr>\<rparr>)
   = Returns ((Controller_init ''mean'')
        \<lparr>session := Session_running, input_scanner := Some (FolderScanner (Some True)),
         stacker_queue := [Image ()],
         stacker := \<lparr>accumulator = Some (Image ()), stack_size = 3,
                      stacking_mode = ''mean'', align_before_stack = True\<rparr>\<rparr>)
   \<and> start_session
     \<lparr>input_system = ''FS'', scan_folder_path = ''/scan'', work_folder_path = ''/work'',
      web_folder_path = ''/web'', directories = {''/scan'', ''/work'', ''/web''},
      web_content_error = None,
      observer_error = Some ''No such file or directory'', indi_connects = True\<rparr>
     ((Controller_init ''mean'' :: unit controller)
        \<lparr>session := Session_paused, input_scanner := Some (FolderScanner None)\<rparr>)
   = Raises (SessionError ''Input scanner could not start'' ''No such file or directory'')
       ((Controller_init ''mean'')
          \<lparr>session := Session_paused, input_scanner := Some (FolderScanner (Some False))\<rparr>)
   \<and> start_session
     \<lparr>input_system = ''INDI'', scan_folder_path = ''/scan'', work_folder_path = ''/work'',
      web_folder_path = ''/web'', directories = {''/scan'', ''/work'', ''/web''},
      web_content_error = Some ''Permission denied'',
      observer_error = None, indi_connects = True\<rparr>
     ((Controller_init ''mean'' :: unit controller)
        \<lparr>session := Session_paused, input_scanner := Some (IndiScanner False)\<rparr>)
   = Raises (SessionError ''Web folder could not be prepared'' ''Permission denied'')
       ((Controller_init ''mean'')
          \<lparr>session := Session_paused, input_scanner := Some (IndiScanner False)\<rparr>)"
  using
    restart_from_paused
    [where c = "(Controller_init ''mean'' :: unit controller)
        \<lparr>session := Session_paused, input_scanner := Some (FolderScanner None),
         stacker_queue := [Image ()],
         stacker := \<lparr>accumulator = Some (Image ()), stack_size = 3,
                      stacking_mode = ''mean'', align_before_stack = True\<rparr>\<rparr>"
     and env = "\<lparr>input_system = ''FS'', scan_folder_path = ''/scan'',
      work_folder_path = ''/work'',
      web_folder_path = ''/web'', directories = {''/scan'', ''/work'', ''/web''},
      web_content_error = None,
      observer_error = None, indi_connects = True\<rparr>"
     and t = "''unknown''" and d = "{''/scan'', ''/web''}"
     and ob = None and sc = "FolderScanner None" and ?sc1.0 = "FolderScanner (Some True)"]
    restart_from_paused
    [where c = "(Controller_init ''mean'' :: unit controller)
        \<lparr>session := Session_paused, input_scanner := Some (FolderScanner None)\<rparr>"
     and env = "\<lparr>input_system = ''FS'', scan_folder_path = ''/scan'',
      work_folder_path = ''/work'',
      web_folder_path = ''/web'', directories = {''/scan'', ''/work'', ''/web''},
      web_content_error = None,
      observer_error = Some ''No such file or directory'', indi_connects = True\<rparr>"
     and ob = None and os_error = "''No such file or directory''"]
    restart_from_paused
    [where c = "(Controller_init ''mean'' :: unit controller)
        \<lparr>session := Session_paused, input_scanner := Some (IndiScanner False)\<rparr>"
     and env = "\<lparr>input_system = ''INDI'', scan_folder_path = ''/scan'',
      work_folder_path = ''/work'',
      web_folder_path = ''/web'', directories = {''/scan'', ''/work'', ''/web''},
      web_content_error = Some ''Permission denied'',
      observer_error = None, indi_connects = True\<rparr>"
     and web_error = "''Permission denied''"]
  by (simp add: Controller_init_def)

text \<open>
  Claim C2 fails on the code: \<open>pause_session\<close> guards only the stop of the scanner by
  \<open>is_running\<close> and sets the status unconditionally. On a controller that was just
  built, hence stopped, it returns normally and leaves the session paused; the next
  \<open>start_session\<close> takes the branch of a paused session and calls \<^verbatim>\<open>start\<close> on
  the scanner that was never created.
\<close>

theorem pause_session_while_stopped:
  "is_stopped (Controller_init mean_mode :: unit controller)
   \<and> pause_session (Controller_init mean_mode :: unit controller)
       = Returns ((Controller_init mean_mode) \<lparr>session := Session_paused\<rparr>)
   \<and> start_session
        \<lparr>input_system = ''FS'', scan_folder_path = ''/scan'', work_folder_path = ''/work'',
         web_folder_path = ''/web'', directories = {''/scan'', ''/work'', ''/web''},
         web_content_error = None,
         observer_error = None, indi_connects = True\<rparr>
        ((Controller_init mean_mode :: unit controller) \<lparr>session := Session_paused\<rparr>)
       = Raises AttributeError ((Controller_init mean_mode) \<lparr>session := Session_paused\<rparr>)"
  by (simp add: session_defs Controller_init_def)

end
